theory Spec2Isabelle
  imports Complex_Main "HOL-Library.Multiset"
begin

section \<open>Numbers\<close>

text \<open>
  Concentrations, sub-index intermediates and timestamps are Python numbers. The model
  computes with exact rationals, so the rounding error of binary floating point and the
  special values (NaN, infinities) are outside it; every concrete input used below is a
  small integer or a short decimal on which the exact and the floating computation agree.
\<close>

text \<open>Python's \<open>round(x)\<close>: to the nearest integer, a tie goes to the even neighbour.\<close>

definition py_round :: "rat \<Rightarrow> int" where
  "py_round x =
     (let f = \<lfloor>x\<rfloor>; d = x - of_int f in
      if d < 1 / 2 then f
      else if 1 / 2 < d then f + 1
      else if even f then f else f + 1)"

section \<open>aqi_calculator.py\<close>

subsection \<open>Breakpoint table\<close>

text \<open>
  One entry of \<open>data/aqi_breakpoints.json\<close>. The table \<open>BREAKPOINTS\<close> loaded from
  that data file is a parameter of every function that reads it: a dictionary from a
  pollutant key to its list of segments.
\<close>

record breakpoint =
  low_conc :: rat
  high_conc :: rat
  low_aqi :: rat
  high_aqi :: rat

type_synonym breakpoints = "string \<rightharpoonup> breakpoint list"

text \<open>The exceptions the calculator can raise on a table.\<close>

datatype error = IndexError | ZeroDivisionError

text \<open>The expression under \<open>round\<close> in \<open>calculate_sub_index\<close>.\<close>

definition interpolate :: "breakpoint \<Rightarrow> rat \<Rightarrow> rat" where
  "interpolate bp concentration =
     ((high_aqi bp - low_aqi bp) / (high_conc bp - low_conc bp))
       * (concentration - low_conc bp) + low_aqi bp"

text \<open>
  The \<open>for bp in breakpoints\<close> loop of \<open>calculate_sub_index\<close>: the first segment
  that contains the concentration decides; \<open>None\<close> when the loop runs to its end. The
  division raises when the matching segment has equal ends.
\<close>

fun scan_breakpoints :: "breakpoint list \<Rightarrow> rat \<Rightarrow> (error + int) option" where
  "scan_breakpoints [] concentration = None"
| "scan_breakpoints (bp # rest) concentration =
     (if low_conc bp \<le> concentration \<and> concentration \<le> high_conc bp
      then (if high_conc bp - low_conc bp = 0 then Some (Inl ZeroDivisionError)
            else Some (Inr (py_round (interpolate bp concentration))))
      else scan_breakpoints rest concentration)"

definition calculate_sub_index :: "breakpoints \<Rightarrow> string \<Rightarrow> rat \<Rightarrow> error + int" where
  "calculate_sub_index BREAKPOINTS pollutant concentration =
     (case BREAKPOINTS pollutant of
        None \<Rightarrow> Inr 0
      | Some bps \<Rightarrow>
          (case scan_breakpoints bps concentration of
             Some r \<Rightarrow> r
           | None \<Rightarrow>
               if bps = [] then Inl IndexError
               else if high_conc (last bps) < concentration then Inr 500
               else Inr 0))"

subsection \<open>Categories\<close>

record aqi_category =
  cat_min :: rat
  cat_max :: rat
  cat_name :: string
  cat_color :: string

text \<open>\<open>AQI_CATEGORIES\<close>; the description texts are left out.\<close>

definition AQI_CATEGORIES :: "aqi_category list" where
  "AQI_CATEGORIES =
     [\<lparr>cat_min = 0, cat_max = 50, cat_name = ''Good'', cat_color = ''#00e400''\<rparr>,
      \<lparr>cat_min = 51, cat_max = 100, cat_name = ''Satisfactory'', cat_color = ''#ffff00''\<rparr>,
      \<lparr>cat_min = 101, cat_max = 200, cat_name = ''Moderate'', cat_color = ''#ff7e00''\<rparr>,
      \<lparr>cat_min = 201, cat_max = 300, cat_name = ''Poor'', cat_color = ''#ff0000''\<rparr>,
      \<lparr>cat_min = 301, cat_max = 400, cat_name = ''Very Poor'', cat_color = ''#99004c''\<rparr>,
      \<lparr>cat_min = 401, cat_max = 500, cat_name = ''Severe'', cat_color = ''#7e0023''\<rparr>]"

fun scan_categories :: "aqi_category list \<Rightarrow> rat \<Rightarrow> aqi_category option" where
  "scan_categories [] aqi_value = None"
| "scan_categories (c # rest) aqi_value =
     (if cat_min c \<le> aqi_value \<and> aqi_value \<le> cat_max c then Some c
      else scan_categories rest aqi_value)"

definition get_category_info :: "rat \<Rightarrow> aqi_category" where
  "get_category_info aqi_value =
     (case scan_categories AQI_CATEGORIES aqi_value of
        Some c \<Rightarrow> c
      | None \<Rightarrow> if 500 < aqi_value then last AQI_CATEGORIES else hd AQI_CATEGORIES)"


subsection \<open>Overall index\<close>

text \<open>
  A Python dictionary is kept as the list of its items in insertion order, the keys
  distinct. \<open>d[k] = v\<close> replaces the value of a key that is present, where it stands, and
  appends a new key.
\<close>

fun dict_set :: "('k \<times> 'v) list \<Rightarrow> 'k \<Rightarrow> 'v \<Rightarrow> ('k \<times> 'v) list" where
  "dict_set [] k v = [(k, v)]"
| "dict_set ((k', v') # rest) k v =
     (if k' = k then (k, v) # rest else (k', v') # dict_set rest k v)"

text \<open>A pollutant vector: each key with its concentration, \<open>None\<close> for Python's \<open>None\<close>.\<close>

type_synonym pollutant_vector = "(string \<times> rat option) list"

text \<open>
  The first loop of \<open>calculate_aqi\<close>, \<open>acc\<close> being \<open>sub_indices\<close> so far. An exception
  of \<open>calculate_sub_index\<close> ends it.
\<close>

fun sub_indices_loop ::
  "breakpoints \<Rightarrow> pollutant_vector \<Rightarrow> (string \<times> int) list \<Rightarrow> error + (string \<times> int) list" where
  "sub_indices_loop BREAKPOINTS [] acc = Inr acc"
| "sub_indices_loop BREAKPOINTS ((pollutant, None) # rest) acc =
     sub_indices_loop BREAKPOINTS rest acc"
| "sub_indices_loop BREAKPOINTS ((pollutant, Some concentration) # rest) acc =
     (if 0 \<le> concentration
      then (case calculate_sub_index BREAKPOINTS pollutant concentration of
              Inl e \<Rightarrow> Inl e
            | Inr s \<Rightarrow> sub_indices_loop BREAKPOINTS rest (dict_set acc pollutant s))
      else sub_indices_loop BREAKPOINTS rest acc)"

text \<open>
  Python's \<open>max\<close> walks its argument once and replaces the candidate only by a strictly
  larger element, so the first of several largest ones is returned. \<open>max_item\<close> is
  \<open>max(d, key=d.get)\<close> on the items of \<open>d\<close>, each key paired with the value \<open>d.get\<close>
  gives for it; \<open>max_value\<close> is \<open>max(d.values())\<close>.
\<close>

fun max_item :: "('k \<times> int) list \<Rightarrow> 'k \<times> int \<Rightarrow> 'k \<times> int" where
  "max_item [] best = best"
| "max_item (kv # rest) best = max_item rest (if snd best < snd kv then kv else best)"

fun max_value :: "int list \<Rightarrow> int \<Rightarrow> int" where
  "max_value [] best = best"
| "max_value (v # rest) best = max_value rest (if best < v then v else best)"

record aqi_result =
  aqi :: int
  category :: string
  color :: string
  dominant_pollutant :: "string option"
  sub_indices :: "(string \<times> int) list"

definition calculate_aqi :: "breakpoints \<Rightarrow> pollutant_vector \<Rightarrow> error + aqi_result" where
  "calculate_aqi BREAKPOINTS pollutants =
     (case sub_indices_loop BREAKPOINTS pollutants [] of
        Inl e \<Rightarrow> Inl e
      | Inr subs \<Rightarrow>
          (let aqi_value = (case subs of [] \<Rightarrow> 0 | kv # rest \<Rightarrow> max_value (map snd rest) (snd kv));
               dominant = (case subs of [] \<Rightarrow> None | kv # rest \<Rightarrow> Some (fst (max_item rest kv)));
               category_info = get_category_info (of_int aqi_value)
           in Inr \<lparr>aqi = aqi_value,
                   category = cat_name category_info,
                   color = cat_color category_info,
                   dominant_pollutant = dominant,
                   sub_indices = subs\<rparr>))"

subsection \<open>A concrete table\<close>

text \<open>
  The PM2.5 bands as the docstring of \<open>get_demo_aqi_data\<close> quotes them (the open band
  "251+" has no upper end there and is left out), with a second, one-band pollutant.
  This is one table the calculator can be given; it serves the concrete evaluations.
\<close>

definition pm25_bands :: "breakpoint list" where
  "pm25_bands =
     [\<lparr>low_conc = 0, high_conc = 30, low_aqi = 0, high_aqi = 50\<rparr>,
      \<lparr>low_conc = 31, high_conc = 60, low_aqi = 51, high_aqi = 100\<rparr>,
      \<lparr>low_conc = 61, high_conc = 90, low_aqi = 101, high_aqi = 200\<rparr>,
      \<lparr>low_conc = 91, high_conc = 120, low_aqi = 201, high_aqi = 300\<rparr>,
      \<lparr>low_conc = 121, high_conc = 250, low_aqi = 301, high_aqi = 400\<rparr>]"

definition example_table :: breakpoints where
  "example_table =
     [''pm25'' \<mapsto> pm25_bands,
      ''pm10'' \<mapsto> [\<lparr>low_conc = 0, high_conc = 50, low_aqi = 0, high_aqi = 50\<rparr>]]"

text \<open>
  A table is well formed when every pollutant has at least one segment and every segment
  has its lower end strictly below its upper end; on such a table no lookup raises.
\<close>

definition wf_table :: "breakpoints \<Rightarrow> bool" where
  "wf_table BREAKPOINTS \<longleftrightarrow>
     (\<forall>bps \<in> ran BREAKPOINTS. bps \<noteq> [] \<and> (\<forall>bp \<in> set bps. low_conc bp < high_conc bp))"


section \<open>data_fetcher.py\<close>

subsection \<open>Cache\<close>

text \<open>
  The module-level dictionary \<open>_cache\<close>: a key is bound to the stored data and the time
  of storing. The state is passed explicitly, and so is each reading of \<open>time.time()\<close>.
  The module keeps one dictionary for every kind of data; the keys of the two fetchers
  modelled here start with different prefixes (\<open>openaq_\<close>, \<open>weather_\<close>), so each
  fetcher is given a store of its own payload type.
\<close>

type_synonym 'v cache = "string \<rightharpoonup> ('v \<times> rat)"

definition CACHE_DURATION :: rat where
  "CACHE_DURATION = 1800"

definition get_cached_data :: "'v cache \<Rightarrow> rat \<Rightarrow> string \<Rightarrow> 'v option" where
  "get_cached_data cache now cache_key =
     (case cache cache_key of
        None \<Rightarrow> None
      | Some (data, timestamp) \<Rightarrow>
          if now - timestamp < CACHE_DURATION then Some data else None)"

definition set_cache :: "'v cache \<Rightarrow> rat \<Rightarrow> string \<Rightarrow> 'v \<Rightarrow> 'v cache" where
  "set_cache cache now cache_key data = cache(cache_key \<mapsto> (data, now))"

subsection \<open>Merging the stations\<close>

text \<open>
  A measurement of a station: \<open>m_parameter\<close> is \<open>measurement.get("parameter", "")\<close>
  and \<open>m_value\<close> is \<open>measurement.get("value")\<close>. A station is
  \<open>result.get("measurements", [])\<close>, the list of its measurements.
\<close>

record measurement =
  m_parameter :: string
  m_value :: "rat option"

type_synonym station = "measurement list"

text \<open>\<open>str.lower\<close> on the characters of a byte string: the letters A to Z move by 32.\<close>

definition lower_char :: "char \<Rightarrow> char" where
  "lower_char c =
     (let n = (of_char c :: nat) in if 65 \<le> n \<and> n \<le> 90 then char_of (n + 32) else c)"

definition lower :: "string \<Rightarrow> string" where
  "lower s = map lower_char s"

definition param_mapping :: "(string \<times> string) list" where
  "param_mapping =
     [(''pm25'', ''pm25''), (''pm10'', ''pm10''), (''no2'', ''no2''),
      (''so2'', ''so2''), (''co'', ''co''), (''o3'', ''o3'')]"

definition empty_vector :: pollutant_vector where
  "empty_vector =
     [(''pm25'', None), (''pm10'', None), (''no2'', None),
      (''so2'', None), (''co'', None), (''o3'', None)]"

text \<open>
  The body of the inner loop of \<open>aggregate_measurements\<close>. \<open>pollutants[key]\<close> reads a
  key of \<open>param_mapping\<close>, which the dictionary has from its initialisation on; the
  branch for a missing key is there for totality only.
\<close>

definition record_measurement :: "pollutant_vector \<Rightarrow> measurement \<Rightarrow> pollutant_vector" where
  "record_measurement pollutants m =
     (case map_of param_mapping (lower (m_parameter m)) of
        None \<Rightarrow> pollutants
      | Some key \<Rightarrow>
          (case m_value m of
             None \<Rightarrow> pollutants
           | Some v \<Rightarrow>
               if 0 \<le> v
               then (case map_of pollutants key of
                       None \<Rightarrow> pollutants
                     | Some None \<Rightarrow> dict_set pollutants key (Some v)
                     | Some (Some old) \<Rightarrow>
                         if old < v then dict_set pollutants key (Some v) else pollutants)
               else pollutants))"

definition aggregate_measurements :: "station list \<Rightarrow> pollutant_vector" where
  "aggregate_measurements results =
     fold (\<lambda>result pollutants. fold (\<lambda>m p. record_measurement p m) result pollutants)
       results empty_vector"

subsection \<open>Live fetch\<close>

text \<open>
  What \<open>requests.get\<close> does: it raises \<open>Timeout\<close> or another \<open>RequestException\<close>, or
  it returns a response with a status code and a body. The network is a parameter, a
  function from the request to its outcome. The body of an OpenAQ response is
  \<open>data.get("results")\<close> as a list of stations (the empty list when there is none); the
  body of a weather response is the weather dictionary built from it.
\<close>

datatype 'a response = Timeout | RequestException | Response nat 'a

datatype request = CityQuery string | RadiusQuery rat rat

text \<open>\<open>params\<close> of the OpenAQ request; a coordinate that is \<open>None\<close> or zero is falsy.\<close>

fun openaq_params :: "string \<Rightarrow> rat option \<Rightarrow> rat option \<Rightarrow> request" where
  "openaq_params city (Some lat) (Some lng) =
     (if lat \<noteq> 0 \<and> lng \<noteq> 0 then RadiusQuery lat lng else CityQuery city)"
| "openaq_params city lat lng = CityQuery city"

text \<open>\<open>if cached:\<close> on a cached dictionary: \<open>None\<close> and the empty dictionary are falsy.\<close>

fun truthy_vector :: "pollutant_vector option \<Rightarrow> bool" where
  "truthy_vector None = False"
| "truthy_vector (Some d) = (d \<noteq> [])"

text \<open>
  \<open>fetch_aqi_from_openaq\<close> with the cache before, the time read by the lookup and the
  time read by \<open>set_cache\<close>; it returns its result and the cache after.
\<close>

definition fetch_aqi_from_openaq ::
  "(request \<Rightarrow> station list response) \<Rightarrow> pollutant_vector cache \<Rightarrow> rat \<Rightarrow> rat \<Rightarrow>
   string \<Rightarrow> rat option \<Rightarrow> rat option \<Rightarrow> pollutant_vector option \<times> pollutant_vector cache" where
  "fetch_aqi_from_openaq http cache now later city lat lng =
     (let cache_key = ''openaq_'' @ city;
          cached = get_cached_data cache now cache_key
      in if truthy_vector cached then (cached, cache)
         else (case http (openaq_params city lat lng) of
                 Response status_code results \<Rightarrow>
                   if status_code = 200 \<and> results \<noteq> []
                   then (let pollutants = aggregate_measurements results
                         in (Some pollutants, set_cache cache later cache_key pollutants))
                   else (None, cache)
               | Timeout \<Rightarrow> (None, cache)
               | RequestException \<Rightarrow> (None, cache)))"

text \<open>
  \<open>fetch_weather\<close>. A weather dictionary has its keys always, so a cached one is truthy.
  \<open>api_key\<close> is \<open>WEATHER_API_KEY\<close>, \<open>demo\<close> the value of \<open>get_demo_weather()\<close> at the
  moment of the call and \<open>fmt\<close> the formatting of a number inside the key.
\<close>

definition fetch_weather ::
  "string \<Rightarrow> 'w \<Rightarrow> (rat \<Rightarrow> string) \<Rightarrow> (rat \<Rightarrow> rat \<Rightarrow> 'w response) \<Rightarrow> 'w cache \<Rightarrow> rat \<Rightarrow> rat \<Rightarrow>
   rat \<Rightarrow> rat \<Rightarrow> 'w \<times> 'w cache" where
  "fetch_weather api_key demo fmt http cache now later lat lng =
     (let cache_key = ''weather_'' @ fmt lat @ ''_'' @ fmt lng
      in case get_cached_data cache now cache_key of
           Some cached \<Rightarrow> (cached, cache)
         | None \<Rightarrow>
             if api_key = [] then (demo, cache)
             else (case http lat lng of
                     Response status_code weather \<Rightarrow>
                       if status_code = 200
                       then (weather, set_cache cache later cache_key weather)
                       else (demo, cache)
                   | Timeout \<Rightarrow> (demo, cache)
                   | RequestException \<Rightarrow> (demo, cache)))"

subsection \<open>Demo data\<close>

text \<open>
  The state of the module-level generator of \<open>random\<close> is the sequence of the values
  \<open>random.random()\<close> will return next, each in the interval from 0 to 1;
  \<open>random.uniform(a, b)\<close> is \<open>a + (b - a) * random()\<close>.
\<close>

type_synonym rng = "nat \<Rightarrow> rat"

definition uniform :: "rat \<Rightarrow> rat \<Rightarrow> rng \<Rightarrow> rat \<times> rng" where
  "uniform a b g = (a + (b - a) * g 0, \<lambda>n. g (Suc n))"

text \<open>\<open>round(x, ndigits)\<close>.\<close>

definition py_round_to :: "rat \<Rightarrow> nat \<Rightarrow> rat" where
  "py_round_to x ndigits = of_int (py_round (x * 10 ^ ndigits)) / 10 ^ ndigits"

definition city_profiles :: "(string \<times> (rat \<times> rat \<times> rat \<times> rat)) list" where
  "city_profiles =
     [
      (''Delhi'', (100, 220, 250, 450)),
      (''Ghaziabad'', (110, 240, 280, 480)),
      (''Noida'', (95, 210, 240, 430)),
      (''Gurugram'', (95, 200, 240, 420)),
      (''Faridabad'', (100, 220, 250, 450)),
      (''Greater Noida'', (105, 230, 260, 460)),
      (''Patna'', (75, 140, 150, 320)),
      (''Lucknow'', (70, 130, 140, 300)),
      (''Kanpur'', (72, 135, 145, 310)),
      (''Muzaffarpur'', (78, 145, 160, 330)),
      (''Varanasi'', (68, 125, 135, 290)),
      (''Agra'', (65, 120, 130, 280)),
      (''Meerut'', (72, 130, 145, 300)),
      (''Dhanbad'', (70, 128, 140, 295)),
      (''Jamshedpur'', (65, 120, 130, 280)),
      (''Bhilai'', (62, 115, 125, 270)),
      (''Raipur'', (58, 110, 115, 260)),
      (''Ludhiana'', (75, 145, 150, 330)),
      (''Amritsar'', (70, 138, 140, 315)),
      (''Jalandhar'', (65, 130, 130, 300)),
      (''Patiala'', (70, 135, 140, 310)),
      (''Chandigarh'', (60, 120, 120, 280)),
      (''Bathinda'', (75, 142, 150, 325)),
      (''Prayagraj'', (70, 130, 140, 300)),
      (''Gorakhpur'', (72, 135, 145, 310)),
      (''Bareilly'', (70, 130, 140, 300)),
      (''Aligarh'', (75, 138, 150, 315)),
      (''Moradabad'', (70, 130, 140, 300)),
      (''Mumbai'', (61, 88, 101, 195)),
      (''Kolkata'', (63, 90, 105, 200)),
      (''Ahmedabad'', (65, 90, 108, 200)),
      (''Hyderabad'', (58, 85, 95, 188)),
      (''Surat'', (60, 88, 100, 195)),
      (''Jaipur'', (63, 90, 105, 200)),
      (''Nagpur'', (60, 87, 100, 192)),
      (''Indore'', (58, 85, 95, 188)),
      (''Bhopal'', (60, 88, 100, 195)),
      (''Thane'', (58, 86, 95, 190)),
      (''Nashik'', (55, 82, 90, 180)),
      (''Rajkot'', (58, 85, 95, 188)),
      (''Vadodara'', (60, 88, 100, 195)),
      (''Jodhpur'', (62, 89, 103, 198)),
      (''Udaipur'', (55, 80, 90, 175)),
      (''Jamnagar'', (56, 82, 92, 180)),
      (''Bhubaneswar'', (55, 82, 90, 180)),
      (''Cuttack'', (56, 83, 92, 182)),
      (''Siliguri'', (58, 85, 95, 188)),
      (''Durgapur'', (63, 90, 105, 200)),
      (''Asansol'', (65, 92, 108, 205)),
      (''Guwahati'', (55, 80, 90, 175)),
      (''Agartala'', (52, 78, 85, 170)),
      (''Chennai'', (28, 65, 50, 115)),
      (''Bengaluru'', (30, 68, 52, 118)),
      (''Pune'', (28, 65, 50, 115)),
      (''Kochi'', (18, 52, 35, 88)),
      (''Thiruvananthapuram'', (15, 48, 30, 82)),
      (''Coimbatore'', (22, 58, 42, 98)),
      (''Mangaluru'', (15, 48, 30, 82)),
      (''Visakhapatnam'', (22, 60, 42, 100)),
      (''Mysuru'', (18, 54, 35, 92)),
      (''Madurai'', (25, 62, 45, 105)),
      (''Kozhikode'', (14, 46, 28, 78)),
      (''Panaji'', (12, 42, 24, 72)),
      (''Margao'', (12, 42, 24, 72)),
      (''Shimla'', (8, 28, 15, 52)),
      (''Manali'', (6, 25, 12, 48)),
      (''Dharamshala'', (8, 27, 15, 50)),
      (''Gangtok'', (6, 24, 12, 45)),
      (''Shillong'', (10, 30, 18, 55)),
      (''Aizawl'', (8, 26, 15, 48)),
      (''Kohima'', (8, 27, 15, 50)),
      (''Imphal'', (10, 28, 18, 52)),
      (''Itanagar'', (8, 27, 15, 50)),
      (''Port Blair'', (5, 22, 10, 42)),
      (''Leh'', (4, 18, 8, 35)),
      (''Rishikesh'', (12, 38, 22, 65)),
      (''Haridwar'', (15, 42, 28, 72)),
      (''Dehradun'', (18, 48, 32, 82)),
      (''Ooty'', (5, 22, 10, 42)),
      (''Munnar'', (4, 18, 8, 35))]"

text \<open>
  \<open>get_demo_aqi_data\<close> with the generator state before; it returns the vector and the
  generator state after. The draws happen in the order of the source: PM2.5, the PM10
  ratio, then the entries of the returned dictionary from left to right.
\<close>

definition get_demo_aqi_data :: "string \<Rightarrow> rng \<Rightarrow> pollutant_vector \<times> rng" where
  "get_demo_aqi_data city g0 =
     (let (pm25_min, pm25_max, target_aqi_min, target_aqi_max) =
            (case map_of city_profiles city of
               Some profile \<Rightarrow> profile
             | None \<Rightarrow> (55, 82, 90, 180));
          (pm25, g1) = uniform pm25_min pm25_max g0;
          multiplier =
            (if pm25 \<le> 30 then 3 / 10
             else if pm25 \<le> 60 then 6 / 10
             else if pm25 \<le> 90 then 1
             else if pm25 \<le> 120 then 14 / 10
             else 18 / 10);
          (ratio, g2) = uniform (3 / 2) (22 / 10) g1;
          pm10 = pm25 * ratio;
          (no2, g3) = uniform 12 60 g2;
          (so2, g4) = uniform 6 35 g3;
          (co, g5) = uniform (2 / 10) 2 g4;
          (o3, g6) = uniform 20 80 g5
      in ([(''pm25'', Some (py_round_to pm25 1)),
           (''pm10'', Some (py_round_to pm10 1)),
           (''no2'', Some (py_round_to (no2 * multiplier) 1)),
           (''so2'', Some (py_round_to (so2 * multiplier) 1)),
           (''co'', Some (py_round_to (co * multiplier) 2)),
           (''o3'', Some (py_round_to (o3 * multiplier) 1))], g6))"

subsection \<open>The report of a city\<close>

record city_info =
  ci_name :: "string option"
  ci_lat :: "rat option"
  ci_lng :: "rat option"
  ci_state :: "string option"

text \<open>\<open>city_info.get("name", "Unknown")\<close>.\<close>

definition city_name_of :: "city_info \<Rightarrow> string" where
  "city_name_of city_info = (case ci_name city_info of Some n \<Rightarrow> n | None \<Rightarrow> ''Unknown'')"

record solution =
  sol_name :: string
  sol_action :: string
  sol_icon :: string
  sol_status :: string

record pollutant_row =
  row_key :: string
  row_value :: rat
  row_sub_index :: int

text \<open>
  The report of \<open>get_city_data\<close>. The display names and units of the rows, the texts of
  \<open>health_risks\<close>, the series \<open>historical\<close> and the time stamp \<open>last_updated\<close> are not
  part of the model.
\<close>

record 'w city_report =
  report_city :: string
  report_state :: string
  report_aqi :: int
  report_category :: string
  report_color :: string
  report_dominant_pollutant :: "string option"
  report_pollutants :: "pollutant_row list"
  report_weather :: 'w
  report_cigarettes_per_day :: rat
  report_cigarettes_weekly :: rat
  report_cigarettes_monthly :: rat
  report_solutions :: "solution list"
  report_data_source :: string

text \<open>The four threshold rules, in the order the source appends them.\<close>

definition solutions_for :: "int \<Rightarrow> solution list" where
  "solutions_for aqi_value =
     [if 100 < aqi_value
      then \<lparr>sol_name = ''Air Purifier'', sol_action = ''Turn On'',
            sol_icon = ''air_purifier_gen'', sol_status = ''must''\<rparr>
      else \<lparr>sol_name = ''Air Purifier'', sol_action = ''Optional'',
            sol_icon = ''air_purifier_gen'', sol_status = ''optional''\<rparr>,
      if 150 < aqi_value
      then \<lparr>sol_name = ''Car Filter'', sol_action = ''Must'',
            sol_icon = ''directions_car'', sol_status = ''must''\<rparr>
      else \<lparr>sol_name = ''Car Filter'', sol_action = ''Check'',
            sol_icon = ''directions_car'', sol_status = ''optional''\<rparr>,
      if 200 < aqi_value
      then \<lparr>sol_name = ''N95 Mask'', sol_action = ''Must'',
            sol_icon = ''masks'', sol_status = ''must''\<rparr>
      else \<lparr>sol_name = ''N95 Mask'', sol_action = ''Optional'',
            sol_icon = ''masks'', sol_status = ''optional''\<rparr>,
      if 250 < aqi_value
      then \<lparr>sol_name = ''Stay Indoor'', sol_action = ''Must'',
            sol_icon = ''home'', sol_status = ''must''\<rparr>
      else \<lparr>sol_name = ''Stay Indoor'', sol_action = ''Preferred'',
            sol_icon = ''home'', sol_status = ''optional''\<rparr>]"

text \<open>The loop that fills \<open>pollutants_display\<close>.\<close>

fun display_rows :: "(string \<times> int) list \<Rightarrow> pollutant_vector \<Rightarrow> pollutant_row list" where
  "display_rows subs [] = []"
| "display_rows subs ((key, None) # rest) = display_rows subs rest"
| "display_rows subs ((key, Some v) # rest) =
     \<lparr>row_key = key, row_value = v,
      row_sub_index = (case map_of subs key of Some s \<Rightarrow> s | None \<Rightarrow> 0)\<rparr>
       # display_rows subs rest"

text \<open>\<open>pollutants.get('pm25', 0) or 0\<close>.\<close>

definition pm25_or_zero :: "pollutant_vector \<Rightarrow> rat" where
  "pm25_or_zero pollutants =
     (case map_of pollutants ''pm25'' of Some (Some v) \<Rightarrow> v | _ \<Rightarrow> 0)"

text \<open>\<open>all(v is None for v in pollutants.values())\<close>.\<close>

definition all_none :: "pollutant_vector \<Rightarrow> bool" where
  "all_none pollutants = list_all (\<lambda>kv. snd kv = None) pollutants"

text \<open>
  What one call of \<open>get_city_data\<close> meets outside the program: the two services, the
  key, the demo weather of the moment, the formatting of numbers, and the four readings
  of the clock (lookup and store of each fetcher).
\<close>

record 'w env =
  openaq_http :: "request \<Rightarrow> station list response"
  weather_http :: "rat \<Rightarrow> rat \<Rightarrow> 'w response"
  weather_api_key :: string
  demo_weather :: 'w
  number_format :: "rat \<Rightarrow> string"
  aqi_lookup_time :: rat
  aqi_store_time :: rat
  weather_lookup_time :: rat
  weather_store_time :: rat

text \<open>
  \<open>get_city_data\<close>: from the table, the environment, the two stores, the generator state
  and the city to the report and the two stores after, or the exception of the
  calculator. The generator state after the call is not returned: \<open>get_historical_data\<close>,
  which is not modelled, draws from it too.
\<close>

definition get_city_data ::
  "breakpoints \<Rightarrow> 'w env \<Rightarrow> pollutant_vector cache \<Rightarrow> 'w cache \<Rightarrow> rng \<Rightarrow> city_info \<Rightarrow>
   error + ('w city_report \<times> pollutant_vector cache \<times> 'w cache)" where
  "get_city_data BREAKPOINTS e aqi_cache weather_cache g city_info =
     (let city_name = city_name_of city_info;
          lat = ci_lat city_info;
          lng = ci_lng city_info;
          (fetched, aqi_cache') =
            fetch_aqi_from_openaq (openaq_http e) aqi_cache (aqi_lookup_time e)
              (aqi_store_time e) city_name lat lng;
          (pollutant_values, source) =
            (case fetched of
               None \<Rightarrow> (fst (get_demo_aqi_data city_name g), ''demo'')
             | Some live \<Rightarrow>
                 if all_none live then (fst (get_demo_aqi_data city_name g), ''demo'')
                 else (live, ''openaq''))
      in case calculate_aqi BREAKPOINTS pollutant_values of
           Inl err \<Rightarrow> Inl err
         | Inr aqi_result \<Rightarrow>
             (let per_day = py_round_to (pm25_or_zero pollutant_values / 22) 1;
                  (weather_now, weather_cache') =
                    (case (lat, lng) of
                       (Some lat_value, Some lng_value) \<Rightarrow>
                         if lat_value \<noteq> 0 \<and> lng_value \<noteq> 0
                         then fetch_weather (weather_api_key e) (demo_weather e)
                                (number_format e) (weather_http e) weather_cache
                                (weather_lookup_time e) (weather_store_time e) lat_value lng_value
                         else (demo_weather e, weather_cache)
                     | _ \<Rightarrow> (demo_weather e, weather_cache))
              in Inr (\<lparr>report_city = city_name,
                       report_state = (case ci_state city_info of Some s \<Rightarrow> s | None \<Rightarrow> []),
                       report_aqi = aqi aqi_result,
                       report_category = category aqi_result,
                       report_color = color aqi_result,
                       report_dominant_pollutant = dominant_pollutant aqi_result,
                       report_pollutants = display_rows (sub_indices aqi_result) pollutant_values,
                       report_weather = weather_now,
                       report_cigarettes_per_day = per_day,
                       report_cigarettes_weekly = py_round_to (per_day * 7) 1,
                       report_cigarettes_monthly = py_round_to (per_day * 30) 0,
                       report_solutions = solutions_for (aqi aqi_result),
                       report_data_source = source\<rparr>,
                      aqi_cache', weather_cache')))"

subsection \<open>What the properties speak about\<close>

text \<open>
  The pollutants of a vector that contribute a sub-index, in the words of the
  specification: those with a concentration that is not \<open>None\<close> and at least 0.
\<close>

fun contributing :: "pollutant_vector \<Rightarrow> (string \<times> rat) list" where
  "contributing [] = []"
| "contributing ((pollutant, None) # rest) = contributing rest"
| "contributing ((pollutant, Some concentration) # rest) =
     (if 0 \<le> concentration then (pollutant, concentration) # contributing rest
      else contributing rest)"

text \<open>The sub-index of a contributing pollutant, 0 standing in for an exception.\<close>

definition sub_index_of :: "breakpoints \<Rightarrow> string \<times> rat \<Rightarrow> int" where
  "sub_index_of BREAKPOINTS pc =
     (case calculate_sub_index BREAKPOINTS (fst pc) (snd pc) of Inr s \<Rightarrow> s | Inl e \<Rightarrow> 0)"

text \<open>A vector with a tie between its two contributing pollutants.\<close>

definition example_vector :: pollutant_vector where
  "example_vector = [(''no2'', None), (''pm10'', Some 30), (''pm25'', Some 18), (''co'', Some (- 1))]"

text \<open>
  The merged value of a pollutant in the words of the specification: the readings of a
  key are the values, not \<open>None\<close> and not negative, of the measurements whose
  lower-cased parameter is the key, over all stations; the merged value is their maximum,
  \<open>None\<close> when there is none.
\<close>

definition pollutant_keys :: "string list" where
  "pollutant_keys = [''pm25'', ''pm10'', ''no2'', ''so2'', ''co'', ''o3'']"

definition reading_of :: "string \<Rightarrow> measurement \<Rightarrow> rat option" where
  "reading_of key m =
     (if lower (m_parameter m) = key
      then (case m_value m of None \<Rightarrow> None | Some v \<Rightarrow> if 0 \<le> v then Some v else None)
      else None)"

definition readings :: "string \<Rightarrow> station list \<Rightarrow> rat list" where
  "readings key results = List.map_filter (reading_of key) (concat results)"

definition merged :: "string \<Rightarrow> station list \<Rightarrow> rat option" where
  "merged key results =
     (if readings key results = [] then None else Some (Max (set (readings key results))))"

text \<open>
  The state of the loop seen per key (used in the proofs only): the value kept for a key
  after one more reading, and the dictionary with the six keys as a function of the key.
\<close>

fun better :: "rat option \<Rightarrow> rat \<Rightarrow> rat option" where
  "better None v = Some v"
| "better (Some old) v = Some (if old < v then v else old)"

definition as_vector :: "(string \<Rightarrow> rat option) \<Rightarrow> pollutant_vector" where
  "as_vector f = map (\<lambda>key. (key, f key)) pollutant_keys"

definition merge_step :: "(string \<Rightarrow> rat option) \<Rightarrow> measurement \<Rightarrow> string \<Rightarrow> rat option" where
  "merge_step f m = (\<lambda>key. case reading_of key m of None \<Rightarrow> f key | Some v \<Rightarrow> better (f key) v)"

text \<open>A station reporting PM2.5 under an upper-case name, with two readings that do not count.\<close>

definition pm25_station :: "rat \<Rightarrow> station" where
  "pm25_station v = [\<lparr>m_parameter = ''PM25'', m_value = Some v\<rparr>,
                     \<lparr>m_parameter = ''co'', m_value = Some (- 1)\<rparr>,
                     \<lparr>m_parameter = ''o3'', m_value = None\<rparr>]"

text \<open>
  The outcomes of a request that the specification calls a failed live fetch: a timeout,
  a transport error, a status that is not a success, or (for OpenAQ) an empty result set.
\<close>

fun openaq_failure :: "station list response \<Rightarrow> bool" where
  "openaq_failure Timeout = True"
| "openaq_failure RequestException = True"
| "openaq_failure (Response status_code results) = (status_code \<noteq> 200 \<or> results = [])"

fun weather_failure :: "'w response \<Rightarrow> bool" where
  "weather_failure Timeout = True"
| "weather_failure RequestException = True"
| "weather_failure (Response status_code weather) = (status_code \<noteq> 200)"

text \<open>A cache whose only entry is stale at time 2000, and three stations.\<close>

definition stale_cache :: "pollutant_vector cache" where
  "stale_cache = set_cache Map.empty 0 ''openaq_Delhi'' [(''pm25'', Some 10)]"

definition three_stations :: "station list" where
  "three_stations = [pm25_station 40, pm25_station 85, pm25_station 60]"

text \<open>
  The orchestrator in the words of the specification: the live vector is a miss when it
  is absent or all its fields are \<open>None\<close>; a report is built from a vector when its
  index, category, colour, dominant pollutant, rows and derived figures are those the
  calculator gives for that vector.
\<close>

fun live_miss :: "pollutant_vector option \<Rightarrow> bool" where
  "live_miss None = True"
| "live_miss (Some live) = all_none live"

definition built_from :: "breakpoints \<Rightarrow> 'w city_report \<Rightarrow> pollutant_vector \<Rightarrow> bool" where
  "built_from BREAKPOINTS report pollutant_values =
     (case calculate_aqi BREAKPOINTS pollutant_values of
        Inl err \<Rightarrow> False
      | Inr r \<Rightarrow>
          report_aqi report = aqi r
          \<and> report_category report = category r
          \<and> report_color report = color r
          \<and> report_dominant_pollutant report = dominant_pollutant r
          \<and> report_pollutants report = display_rows (sub_indices r) pollutant_values
          \<and> report_cigarettes_per_day report
              = py_round_to (pm25_or_zero pollutant_values / 22) 1
          \<and> report_solutions report = solutions_for (aqi r))"

definition live_vector :: "'w env \<Rightarrow> pollutant_vector cache \<Rightarrow> city_info \<Rightarrow> pollutant_vector option" where
  "live_vector e aqi_cache city_info =
     fst (fetch_aqi_from_openaq (openaq_http e) aqi_cache (aqi_lookup_time e)
            (aqi_store_time e)
            (city_name_of city_info)
            (ci_lat city_info) (ci_lng city_info))"

definition demo_vector :: "city_info \<Rightarrow> rng \<Rightarrow> pollutant_vector" where
  "demo_vector city_info g =
     fst (get_demo_aqi_data (city_name_of city_info) g)"

text \<open>
  Two environments, one where OpenAQ times out and one where it answers with three
  stations, a city, and a generator state whose first six draws are 0 and later ones 1/2.
\<close>

definition offline_env :: "nat env" where
  "offline_env =
     \<lparr>openaq_http = (\<lambda>q. Timeout), weather_http = (\<lambda>la lo. Timeout),
      weather_api_key = [], demo_weather = 0, number_format = (\<lambda>x. ''x''),
      aqi_lookup_time = 2000, aqi_store_time = 2001,
      weather_lookup_time = 2002, weather_store_time = 2003\<rparr>"

definition online_env :: "nat env" where
  "online_env = offline_env\<lparr>openaq_http := (\<lambda>q. Response 200 three_stations)\<rparr>"

definition delhi :: city_info where
  "delhi = \<lparr>ci_name = Some ''Delhi'', ci_lat = Some (286 / 10), ci_lng = Some (772 / 10),
            ci_state = Some ''Delhi''\<rparr>"

definition example_rng :: rng where
  "example_rng = (\<lambda>n. if n < 6 then 0 else 1 / 2)"

section \<open>Properties of the sub-index\<close>

lemma scan_breakpoints_above:
  "\<forall>bp \<in> set bps. high_conc bp < c \<Longrightarrow> scan_breakpoints bps c = None"
  by (induction bps) auto


text \<open>
  C3. For a recognized pollutant (one with a non-empty segment list in the table) and a
  concentration above the upper end of every segment, \<open>calculate_sub_index\<close> returns
  exactly 500.
\<close>

theorem calculate_sub_index_saturates:
  assumes "BREAKPOINTS pollutant = Some bps" and "bps \<noteq> []"
    and "\<forall>bp \<in> set bps. high_conc bp < concentration"
  shows "calculate_sub_index BREAKPOINTS pollutant concentration = Inr 500"
proof -
  have "scan_breakpoints bps concentration = None"
    using assms(3) by (rule scan_breakpoints_above)
  moreover have "high_conc (last bps) < concentration"
    using assms(2,3) by simp
  ultimately show ?thesis
    using assms(1,2) by (simp add: calculate_sub_index_def)
qed

theorem calculate_sub_index_saturates_witness:
  "example_table ''pm25'' = Some pm25_bands \<and> pm25_bands \<noteq> []
   \<and> calculate_sub_index example_table ''pm25'' 300 = Inr 500"
proof -
  have a: "example_table ''pm25'' = Some pm25_bands" by (simp add: example_table_def)
  have b: "pm25_bands \<noteq> []" by (simp add: pm25_bands_def)
  have c: "\<forall>bp \<in> set pm25_bands. high_conc bp < 300" by (simp add: pm25_bands_def)
  show ?thesis
    using a b c calculate_sub_index_saturates [of example_table "''pm25''" pm25_bands 300]
    by blast
qed




section \<open>Properties of the category lookup\<close>

lemma scan_categories_none:
  "\<forall>c \<in> set cs. \<not> (cat_min c \<le> v \<and> v \<le> cat_max c) \<Longrightarrow> scan_categories cs v = None"
  by (induction cs) auto

text \<open>
  C10. A value that lies in none of the six bands and is not above 500 gets the first
  band, "Good", as a silent default; 100.5, between the second and the third band, is
  such a value, and so is every negative one.
\<close>

theorem get_category_info_default_good:
  assumes "\<forall>c \<in> set AQI_CATEGORIES. \<not> (cat_min c \<le> v \<and> v \<le> cat_max c)" and "\<not> 500 < v"
  shows "get_category_info v = hd AQI_CATEGORIES \<and> cat_name (get_category_info v) = ''Good''"
proof -
  have "scan_categories AQI_CATEGORIES v = None"
    using assms(1) by (rule scan_categories_none)
  then have "get_category_info v = hd AQI_CATEGORIES"
    using assms(2) by (simp add: get_category_info_def)
  then show ?thesis by (simp add: AQI_CATEGORIES_def)
qed

theorem get_category_info_default_good_witness:
  "\<not> 500 < (201 / 2 :: rat)
   \<and> get_category_info (201 / 2) = hd AQI_CATEGORIES
   \<and> cat_name (get_category_info (201 / 2)) = ''Good''"
proof -
  have a: "\<forall>c \<in> set AQI_CATEGORIES. \<not> (cat_min c \<le> 201 / 2 \<and> 201 / 2 \<le> cat_max c)"
    by (simp add: AQI_CATEGORIES_def)
  have b: "\<not> 500 < (201 / 2 :: rat)" by simp
  show ?thesis using a b get_category_info_default_good [of "201 / 2"] by blast
qed

lemma get_category_info_negative: "v < 0 \<Longrightarrow> cat_name (get_category_info v) = ''Good''"
  by (simp add: get_category_info_def AQI_CATEGORIES_def)

section \<open>Properties of the cache\<close>

text \<open>
  C7. After \<open>set_cache\<close> of a value under a key at time \<open>t0\<close>, a lookup of the key at a
  time \<open>t\<close> with \<open>t - t0\<close> below the duration returns the value as stored; at a time with
  \<open>t - t0\<close> at or above the duration it returns nothing, while the store (which a lookup
  only reads) still binds the key to the stale value, until a later \<open>set_cache\<close> of the
  key replaces the binding.
\<close>

theorem cache_hit_within_ttl:
  "(t - t0 < CACHE_DURATION \<longrightarrow> get_cached_data (set_cache cache t0 k v) t k = Some v)
   \<and> (CACHE_DURATION \<le> t - t0 \<longrightarrow>
        get_cached_data (set_cache cache t0 k v) t k = None
        \<and> set_cache cache t0 k v k = Some (v, t0))
   \<and> set_cache (set_cache cache t0 k v) t1 k v' k = Some (v', t1)"
  by (simp add: get_cached_data_def set_cache_def)

theorem cache_hit_within_ttl_witness:
  "(1799 - 0 < CACHE_DURATION
    \<and> get_cached_data (set_cache Map.empty 0 ''openaq_Delhi'' (7::nat)) 1799 ''openaq_Delhi''
        = Some 7)
   \<and> (CACHE_DURATION \<le> 1800 - 0
    \<and> get_cached_data (set_cache Map.empty 0 ''openaq_Delhi'' (7::nat)) 1800 ''openaq_Delhi''
        = None
    \<and> set_cache Map.empty 0 ''openaq_Delhi'' (7::nat) ''openaq_Delhi'' = Some (7, 0))"
  using cache_hit_within_ttl [of 1799 0 Map.empty "''openaq_Delhi''" "7::nat"]
    cache_hit_within_ttl [of 1800 0 Map.empty "''openaq_Delhi''" "7::nat"]
  by (simp add: CACHE_DURATION_def)

section \<open>Properties of the overall index\<close>

lemma scan_breakpoints_no_error:
  "\<forall>bp \<in> set bps. low_conc bp < high_conc bp \<Longrightarrow>
   scan_breakpoints bps c = None \<or> (\<exists>s. scan_breakpoints bps c = Some (Inr s))"
  by (induction bps) auto

lemma calculate_sub_index_total:
  assumes "wf_table B"
  shows "calculate_sub_index B p c = Inr (sub_index_of B (p, c))"
proof (cases "B p")
  case None
  then show ?thesis by (simp add: calculate_sub_index_def sub_index_of_def)
next
  case (Some bps)
  then have "bps \<in> ran B" by (auto simp: ran_def)
  with assms have ne: "bps \<noteq> []" and ord: "\<forall>bp \<in> set bps. low_conc bp < high_conc bp"
    by (auto simp: wf_table_def)
  from scan_breakpoints_no_error [OF ord, of c]
  have "\<exists>s. calculate_sub_index B p c = Inr s"
    using Some ne by (auto simp: calculate_sub_index_def)
  then show ?thesis by (auto simp: sub_index_of_def)
qed

lemma sub_indices_loop_fold:
  assumes "wf_table B"
  shows "sub_indices_loop B v acc
           = Inr (fold (\<lambda>pc a. dict_set a (fst pc) (sub_index_of B pc)) (contributing v) acc)"
  using assms
  by (induction B v acc rule: sub_indices_loop.induct) (simp_all add: calculate_sub_index_total)

lemma dict_set_fresh: "k \<notin> fst ` set acc \<Longrightarrow> dict_set acc k x = acc @ [(k, x)]"
  by (induction acc) auto

lemma fold_dict_set_fresh:
  "distinct (map fst xs) \<Longrightarrow> fst ` set xs \<inter> fst ` set acc = {} \<Longrightarrow>
   fold (\<lambda>pc a. dict_set a (fst pc) (f pc)) xs acc = acc @ map (\<lambda>pc. (fst pc, f pc)) xs"
proof (induction xs arbitrary: acc)
  case Nil
  then show ?case by simp
next
  case (Cons x xs)
  have fresh: "fst x \<notin> fst ` set acc" using Cons.prems(2) by auto
  have "fst ` set xs \<inter> fst ` set (acc @ [(fst x, f x)]) = {}"
    using Cons.prems by auto
  with Cons.IH [of "acc @ [(fst x, f x)]"] Cons.prems(1) fresh show ?case
    by (simp add: dict_set_fresh)
qed

lemma contributing_keys: "fst ` set (contributing v) \<subseteq> fst ` set v"
  by (induction v rule: contributing.induct) auto

lemma contributing_distinct: "distinct (map fst v) \<Longrightarrow> distinct (map fst (contributing v))"
proof (induction v rule: contributing.induct)
  case (3 pollutant concentration rest)
  then show ?case using contributing_keys [of rest] by auto
qed simp_all

lemma sub_indices_loop_map:
  assumes "wf_table B" and "distinct (map fst v)"
  shows "sub_indices_loop B v [] = Inr (map (\<lambda>pc. (fst pc, sub_index_of B pc)) (contributing v))"
  using fold_dict_set_fresh [OF contributing_distinct [OF assms(2)], of "[]" "sub_index_of B"]
  by (simp add: sub_indices_loop_fold [OF assms(1)])

lemma max_value_Max: "max_value xs b = Max (set (b # xs))"
proof (induction xs arbitrary: b)
  case Nil
  then show ?case by simp
next
  case (Cons x xs)
  have "Max (insert (if b < x then x else b) (set xs)) = Max (insert b (insert x (set xs)))"
    by (cases "set xs = {}") (auto simp: max_def)
  with Cons.IH [of "if b < x then x else b"] show ?case by simp
qed

lemma max_item_ge: "snd best \<le> snd (max_item rest best)"
proof (induction rest arbitrary: best)
  case Nil
  show ?case by simp
next
  case (Cons kv rest)
  show ?case using Cons.IH [of kv] Cons.IH [of best] by auto
qed

lemma max_item_first:
  "\<exists>pre post. best # rest = pre @ max_item rest best # post
     \<and> (\<forall>x \<in> set pre. snd x < snd (max_item rest best))
     \<and> (\<forall>x \<in> set post. snd x \<le> snd (max_item rest best))"
proof (induction rest arbitrary: best)
  case Nil
  show ?case by (intro exI [of _ "[]"]) simp
next
  case (Cons kv rest)
  show ?case
  proof (cases "snd best < snd kv")
    case True
    then have m: "max_item (kv # rest) best = max_item rest kv" by simp
    from Cons.IH [of kv] obtain pre post where d: "kv # rest = pre @ max_item rest kv # post"
      and lt: "\<forall>x \<in> set pre. snd x < snd (max_item rest kv)"
      and le: "\<forall>x \<in> set post. snd x \<le> snd (max_item rest kv)" by blast
    have "snd best < snd (max_item rest kv)" using True max_item_ge [of kv rest] by simp
    then have "best # kv # rest = (best # pre) @ max_item rest kv # post
        \<and> (\<forall>x \<in> set (best # pre). snd x < snd (max_item rest kv))
        \<and> (\<forall>x \<in> set post. snd x \<le> snd (max_item rest kv))"
      using d lt le by simp
    then show ?thesis unfolding m by blast
  next
    case False
    then have m: "max_item (kv # rest) best = max_item rest best" by simp
    from Cons.IH [of best] obtain pre post where d: "best # rest = pre @ max_item rest best # post"
      and lt: "\<forall>x \<in> set pre. snd x < snd (max_item rest best)"
      and le: "\<forall>x \<in> set post. snd x \<le> snd (max_item rest best)" by blast
    show ?thesis
    proof (cases pre)
      case Nil
      from d have e: "best # rest = max_item rest best # post"
        unfolding Nil by (simp only: append_Nil)
      have mb: "max_item rest best = best" using e by (metis list.inject)
      have r: "rest = post" using e by (metis list.inject)
      have "best # kv # rest = [] @ max_item rest best # (kv # post)
          \<and> (\<forall>x \<in> set []. snd x < snd (max_item rest best))
          \<and> (\<forall>x \<in> set (kv # post). snd x \<le> snd (max_item rest best))"
        using False le mb r by auto
      then show ?thesis unfolding m by blast
    next
      case (Cons a as)
      from d have e: "best # rest = a # (as @ max_item rest best # post)"
        unfolding Cons by (simp only: append_Cons)
      have a: "a = best" using e by (metis list.inject)
      have r: "rest = as @ max_item rest best # post" using e by (metis list.inject)
      have "snd best < snd (max_item rest best)" using lt Cons a by simp
      then have "snd kv < snd (max_item rest best)" using False by simp
      then have "best # kv # rest = (best # kv # as) @ max_item rest best # post
          \<and> (\<forall>x \<in> set (best # kv # as). snd x < snd (max_item rest best))
          \<and> (\<forall>x \<in> set post. snd x \<le> snd (max_item rest best))"
        using r lt le Cons a by auto
      then show ?thesis unfolding m by blast
    qed
  qed
qed

lemma max_item_value: "snd (max_item rest best) = max_value (map snd rest) (snd best)"
  by (induction rest arbitrary: best) auto


lemma calculate_aqi_unfold:
  assumes "wf_table B" and "distinct (map fst v)"
  shows "calculate_aqi B v =
    (let subs = map (\<lambda>pc. (fst pc, sub_index_of B pc)) (contributing v);
         aqi_value = (case subs of [] \<Rightarrow> 0 | kv # rest \<Rightarrow> max_value (map snd rest) (snd kv))
     in Inr \<lparr>aqi = aqi_value,
             category = cat_name (get_category_info (of_int aqi_value)),
             color = cat_color (get_category_info (of_int aqi_value)),
             dominant_pollutant = (case subs of [] \<Rightarrow> None | kv # rest \<Rightarrow> Some (fst (max_item rest kv))),
             sub_indices = subs\<rparr>)"
  by (simp add: calculate_aqi_def sub_indices_loop_map [OF assms] Let_def)

lemma get_category_info_zero: "cat_name (get_category_info 0) = ''Good''"
  by (simp add: get_category_info_def AQI_CATEGORIES_def)

text \<open>
  C1. On a well-formed table and a vector with distinct keys, \<open>calculate_aqi\<close> returns a
  result whose sub-indices are those of exactly the pollutants with a concentration
  that is not \<open>None\<close> and at least 0, in their order; the overall index is the largest of
  them, and when there is no such pollutant the index is 0, the dominant pollutant is
  \<open>None\<close> and the category is "Good".
\<close>

theorem calculate_aqi_is_max_sub_index:
  assumes "wf_table B" and "distinct (map fst v)"
  shows "\<exists>r. calculate_aqi B v = Inr r
     \<and> map (\<lambda>ps. (fst ps, Inr (snd ps))) (sub_indices r)
         = map (\<lambda>pc. (fst pc, calculate_sub_index B (fst pc) (snd pc))) (contributing v)
     \<and> (contributing v \<noteq> [] \<longrightarrow> aqi r = Max (snd ` set (sub_indices r)))
     \<and> (contributing v = [] \<longrightarrow>
           aqi r = 0 \<and> dominant_pollutant r = None \<and> category r = ''Good'')"
proof -
  define subs where "subs = map (\<lambda>pc. (fst pc, sub_index_of B pc)) (contributing v)"
  define aqi_value where
    "aqi_value = (case subs of [] \<Rightarrow> 0 | kv # rest \<Rightarrow> max_value (map snd rest) (snd kv))"
  define r where
    "r = \<lparr>aqi = aqi_value,
          category = cat_name (get_category_info (of_int aqi_value)),
          color = cat_color (get_category_info (of_int aqi_value)),
          dominant_pollutant = (case subs of [] \<Rightarrow> None | kv # rest \<Rightarrow> Some (fst (max_item rest kv))),
          sub_indices = subs\<rparr>"
  have ret: "calculate_aqi B v = Inr r"
    by (simp add: calculate_aqi_unfold [OF assms] r_def aqi_value_def subs_def Let_def)
  have subs: "map (\<lambda>ps. (fst ps, Inr (snd ps))) (sub_indices r)
         = map (\<lambda>pc. (fst pc, calculate_sub_index B (fst pc) (snd pc))) (contributing v)"
    by (simp add: r_def subs_def calculate_sub_index_total [OF assms(1)])
  have mx: "aqi r = Max (snd ` set (sub_indices r))" if "contributing v \<noteq> []"
  proof -
    from that obtain kv rest where c: "subs = kv # rest" by (cases subs) (auto simp: subs_def)
    then have "aqi r = Max (set (snd kv # map snd rest))"
      by (simp add: r_def aqi_value_def max_value_Max)
    also have "set (snd kv # map snd rest) = snd ` set (sub_indices r)"
      by (simp add: r_def c)
    finally show ?thesis .
  qed
  have none: "aqi r = 0 \<and> dominant_pollutant r = None \<and> category r = ''Good''"
    if "contributing v = []"
    using that by (simp add: r_def aqi_value_def subs_def get_category_info_zero)
  from ret subs mx none show ?thesis by blast
qed

lemma wf_example_table: "wf_table example_table"
  by (auto simp: wf_table_def example_table_def ran_def pm25_bands_def split: if_splits)

text \<open>
  C5. With at least one contributing pollutant, the dominant pollutant is a contributing
  pollutant whose sub-index is the overall index, every contributing pollutant before
  it in the vector has a strictly smaller sub-index (the first of several largest ones
  wins), and none after it has a larger one.
\<close>

theorem dominant_pollutant_first_maximal:
  assumes "wf_table B" and "distinct (map fst v)" and "contributing v \<noteq> []"
  shows "\<exists>r p c before after. calculate_aqi B v = Inr r
     \<and> dominant_pollutant r = Some p
     \<and> contributing v = before @ (p, c) # after
     \<and> calculate_sub_index B p c = Inr (aqi r)
     \<and> (\<forall>qd \<in> set before. \<exists>s. calculate_sub_index B (fst qd) (snd qd) = Inr s \<and> s < aqi r)
     \<and> (\<forall>qd \<in> set after. \<exists>s. calculate_sub_index B (fst qd) (snd qd) = Inr s \<and> s \<le> aqi r)"
proof -
  define g where "g = (\<lambda>pc :: string \<times> rat. (fst pc, sub_index_of B pc))"
  define subs where "subs = map g (contributing v)"
  from assms(3) obtain kv rest where c: "subs = kv # rest"
    by (cases subs) (auto simp: subs_def)
  define m where "m = max_item rest kv"
  define r where
    "r = \<lparr>aqi = snd m,
          category = cat_name (get_category_info (of_int (snd m))),
          color = cat_color (get_category_info (of_int (snd m))),
          dominant_pollutant = Some (fst m),
          sub_indices = subs\<rparr>"
  have ret: "calculate_aqi B v = Inr r"
    using c by (simp add: calculate_aqi_unfold [OF assms(1,2)] r_def m_def subs_def g_def
        Let_def max_item_value)
  from max_item_first [of kv rest] obtain pre post where d: "kv # rest = pre @ m # post"
    and lt: "\<forall>x \<in> set pre. snd x < snd m" and le: "\<forall>x \<in> set post. snd x \<le> snd m"
    unfolding m_def by blast
  from d c have "map g (contributing v) = pre @ m # post" by (simp add: subs_def)
  then obtain before pc after where dec: "contributing v = before @ pc # after"
    and pre: "pre = map g before" and mm: "m = g pc" and post: "post = map g after"
    by (auto simp: map_eq_append_conv map_eq_Cons_conv)
  have tot: "\<And>qd. calculate_sub_index B (fst qd) (snd qd) = Inr (snd (g qd))"
    using calculate_sub_index_total [OF assms(1)] by (simp add: g_def)
  have "dominant_pollutant r = Some (fst pc)" by (simp add: r_def mm g_def)
  moreover have "contributing v = before @ (fst pc, snd pc) # after" using dec by simp
  moreover have "calculate_sub_index B (fst pc) (snd pc) = Inr (aqi r)"
    using tot [of pc] by (simp add: r_def mm)
  moreover have "\<forall>qd \<in> set before. \<exists>s. calculate_sub_index B (fst qd) (snd qd) = Inr s \<and> s < aqi r"
    using lt tot by (simp add: pre r_def)
  moreover have "\<forall>qd \<in> set after. \<exists>s. calculate_sub_index B (fst qd) (snd qd) = Inr s \<and> s \<le> aqi r"
    using le tot by (simp add: post r_def)
  ultimately show ?thesis using ret by blast
qed

lemma contributing_example: "contributing example_vector = [(''pm10'', 30), (''pm25'', 18)]"
  by (simp add: example_vector_def)

lemma calculate_aqi_example:
  "calculate_aqi example_table example_vector =
     Inr \<lparr>aqi = 30, category = ''Good'', color = ''#00e400'',
          dominant_pollutant = Some ''pm10'',
          sub_indices = [(''pm10'', 30), (''pm25'', 30)]\<rparr>"
  by (simp add: calculate_aqi_def example_vector_def calculate_sub_index_def example_table_def
      pm25_bands_def py_round_def interpolate_def get_category_info_def AQI_CATEGORIES_def)

theorem calculate_aqi_is_max_sub_index_witness:
  "wf_table example_table \<and> distinct (map fst example_vector)
   \<and> contributing example_vector \<noteq> []
   \<and> (\<exists>r. calculate_aqi example_table example_vector = Inr r
        \<and> aqi r = Max (snd ` set (sub_indices r)) \<and> aqi r = 30)"
proof -
  have d: "distinct (map fst example_vector)" by (simp add: example_vector_def)
  have n: "contributing example_vector \<noteq> []" by (simp add: contributing_example)
  from calculate_aqi_is_max_sub_index [OF wf_example_table d] n
  obtain r where "calculate_aqi example_table example_vector = Inr r"
    and "aqi r = Max (snd ` set (sub_indices r))" by blast
  moreover from this have "aqi r = 30" by (auto simp: calculate_aqi_example)
  ultimately show ?thesis using wf_example_table d n by blast
qed

theorem dominant_pollutant_first_maximal_witness:
  "wf_table example_table \<and> distinct (map fst example_vector)
   \<and> contributing example_vector \<noteq> []
   \<and> (\<exists>r p c before after. calculate_aqi example_table example_vector = Inr r
        \<and> dominant_pollutant r = Some p \<and> p = ''pm10''
        \<and> contributing example_vector = before @ (p, c) # after
        \<and> calculate_sub_index example_table p c = Inr (aqi r))"
proof -
  have d: "distinct (map fst example_vector)" by (simp add: example_vector_def)
  have n: "contributing example_vector \<noteq> []" by (simp add: contributing_example)
  from dominant_pollutant_first_maximal [OF wf_example_table d n]
  obtain r p c before after where a: "calculate_aqi example_table example_vector = Inr r"
    and b: "dominant_pollutant r = Some p"
    and c: "contributing example_vector = before @ (p, c) # after"
    and e: "calculate_sub_index example_table p c = Inr (aqi r)" by blast
  from a b have "p = ''pm10''" by (auto simp: calculate_aqi_example)
  with a b c e show ?thesis using wf_example_table d n by blast
qed

section \<open>Properties of the station merge\<close>

lemma map_of_keyed: "map_of (map (\<lambda>k. (k, f k)) ks) k = (if k \<in> set ks then Some (f k) else None)"
  by (induction ks) auto

lemma dict_set_keyed:
  "distinct ks \<Longrightarrow> k \<in> set ks \<Longrightarrow>
   dict_set (map (\<lambda>k. (k, f k)) ks) k v = map (\<lambda>k'. (k', (f(k := v)) k')) ks"
  by (induction ks) auto

lemma distinct_pollutant_keys: "distinct pollutant_keys"
  by (simp add: pollutant_keys_def)

lemma param_mapping_keys:
  "map_of param_mapping x = (if x \<in> set pollutant_keys then Some x else None)"
  by (simp add: param_mapping_def pollutant_keys_def)

lemma as_vector_cong: "(\<And>k. k \<in> set pollutant_keys \<Longrightarrow> f k = g k) \<Longrightarrow> as_vector f = as_vector g"
  by (simp add: as_vector_def)

lemma record_measurement_step: "record_measurement (as_vector f) m = as_vector (merge_step f m)"
proof (cases "lower (m_parameter m) \<in> set pollutant_keys")
  case False
  then have "\<And>k. k \<in> set pollutant_keys \<Longrightarrow> reading_of k m = None"
    by (auto simp: reading_of_def)
  then have "as_vector (merge_step f m) = as_vector f"
    by (intro as_vector_cong) (simp add: merge_step_def)
  with False show ?thesis by (simp add: record_measurement_def param_mapping_keys)
next
  case True
  define key where "key = lower (m_parameter m)"
  have other: "reading_of k m = None" if "k \<noteq> key" for k
    using that by (simp add: reading_of_def key_def)
  show ?thesis
  proof (cases "reading_of key m")
    case None
    then have "as_vector (merge_step f m) = as_vector f"
      using other by (intro as_vector_cong) (simp add: merge_step_def, metis option.simps(4))
    moreover have "record_measurement (as_vector f) m = as_vector f"
      using None True
      by (auto simp: record_measurement_def param_mapping_keys reading_of_def key_def
          split: option.splits if_splits)
    ultimately show ?thesis by simp
  next
    case (Some v)
    then have val: "m_value m = Some v" and nonneg: "0 \<le> v"
      by (auto simp: reading_of_def key_def split: option.splits if_splits)
    have look: "map_of (as_vector f) key = Some (f key)"
      using True by (simp add: as_vector_def map_of_keyed key_def)
    have upd: "dict_set (as_vector f) key (Some v) = as_vector (f(key := Some v))"
      using True distinct_pollutant_keys
      by (simp add: as_vector_def dict_set_keyed key_def)
    have "record_measurement (as_vector f) m = as_vector (f(key := better (f key) v))"
    proof (cases "f key")
      case None
      then show ?thesis using True val nonneg look upd
        by (simp add: record_measurement_def param_mapping_keys key_def [symmetric])
    next
      case (Some old)
      have "as_vector f = as_vector (f(key := Some old))"
        using Some by (intro as_vector_cong) simp
      then show ?thesis using Some True val nonneg look upd
        by (simp add: record_measurement_def param_mapping_keys key_def [symmetric])
    qed
    moreover have "as_vector (merge_step f m) = as_vector (f(key := better (f key) v))"
    proof (intro as_vector_cong)
      fix k show "merge_step f m k = (f(key := better (f key) v)) k"
        using other [of k] Some by (cases "k = key") (simp_all add: merge_step_def)
    qed
    ultimately show ?thesis by simp
  qed
qed


lemma fold_record_measurement:
  "fold (\<lambda>m p. record_measurement p m) ms (as_vector f)
     = as_vector (fold (\<lambda>m f. merge_step f m) ms f)"
  by (induction ms arbitrary: f) (simp_all add: record_measurement_step)

lemma fold_stations:
  "fold (\<lambda>result pollutants. fold (\<lambda>m p. record_measurement p m) result pollutants)
       results (as_vector f)
     = as_vector (fold (\<lambda>m f. merge_step f m) (concat results) f)"
  by (induction results arbitrary: f) (simp_all add: fold_record_measurement)

lemma empty_vector_as_vector: "empty_vector = as_vector (\<lambda>key. None)"
  by (simp add: empty_vector_def as_vector_def pollutant_keys_def)

lemma fold_step_pointwise:
  "fold (\<lambda>m f. merge_step f m) ms f key
     = fold (\<lambda>v a. better a v) (List.map_filter (reading_of key) ms) (f key)"
proof (induction ms arbitrary: f)
  case Nil
  show ?case by (simp add: List.map_filter_simps)
next
  case (Cons m ms)
  have "fold (\<lambda>m f. merge_step f m) (m # ms) f key
          = fold (\<lambda>v a. better a v) (List.map_filter (reading_of key) ms) (merge_step f m key)"
    using Cons.IH [of "merge_step f m"] by simp
  also have "\<dots> = fold (\<lambda>v a. better a v) (List.map_filter (reading_of key) (m # ms)) (f key)"
    by (cases "reading_of key m") (simp_all add: List.map_filter_simps merge_step_def)
  finally show ?case .
qed

lemma fold_better_Some:
  "fold (\<lambda>v a. better a v) vs (Some a) = Some (Max (set (a # vs)))"
proof (induction vs arbitrary: a)
  case Nil
  show ?case by simp
next
  case (Cons v vs)
  have "Max (insert (if a < v then v else a) (set vs)) = Max (insert a (insert v (set vs)))"
    by (cases "set vs = {}") (auto simp: max_def)
  with Cons.IH [of "if a < v then v else a"] show ?case by simp
qed

lemma fold_better_None:
  "fold (\<lambda>v a. better a v) vs None = (if vs = [] then None else Some (Max (set vs)))"
  by (cases vs) (simp_all add: fold_better_Some)

lemma aggregate_measurements_merged:
  "aggregate_measurements results = map (\<lambda>key. (key, merged key results)) pollutant_keys"
proof -
  have "aggregate_measurements results
          = as_vector (fold (\<lambda>m f. merge_step f m) (concat results) (\<lambda>key. None))"
    by (simp add: aggregate_measurements_def empty_vector_as_vector fold_stations)
  also have "\<dots> = as_vector (\<lambda>key. merged key results)"
    by (intro as_vector_cong)
      (simp add: fold_step_pointwise fold_better_None merged_def readings_def)
  finally show ?thesis by (simp add: as_vector_def)
qed

lemma set_map_filter: "set (List.map_filter f xs) = {y. \<exists>x \<in> set xs. f x = Some y}"
  by (induction xs) (auto simp: List.map_filter_simps split: option.splits)

lemma set_readings:
  "set (readings key results)
     = {v. \<exists>result \<in> set results. \<exists>m \<in> set result. reading_of key m = Some v}"
  by (auto simp: readings_def set_map_filter)

lemma merged_by_set:
  assumes "set (readings key results) = set (readings key results')"
  shows "merged key results = merged key results'"
proof -
  have "(readings key results = []) = (readings key results' = [])"
    using assms by (metis set_empty)
  with assms show ?thesis by (simp add: merged_def)
qed

lemma aggregate_by_set:
  assumes "set results = set results'"
  shows "aggregate_measurements results = aggregate_measurements results'"
proof -
  have "merged key results = merged key results'" for key
    by (rule merged_by_set) (simp add: set_readings assms)
  then show ?thesis by (simp add: aggregate_measurements_merged)
qed

text \<open>
  C6. \<open>aggregate_measurements\<close> gives each of the six pollutants the largest of its
  readings that are not \<open>None\<close> and not negative, over all stations, and \<open>None\<close> when
  there is no such reading. Hence the result does not depend on the order of the
  stations (any permutation, and in particular swapping two parts of the list, gives the
  same vector; regrouping a concatenation does too), and repeating the stations changes
  nothing.
\<close>

theorem aggregate_measurements_is_maximum:
  "aggregate_measurements results = map (\<lambda>key. (key, merged key results)) pollutant_keys
   \<and> (mset results = mset results' \<longrightarrow>
        aggregate_measurements results = aggregate_measurements results')
   \<and> aggregate_measurements (xs @ ys) = aggregate_measurements (ys @ xs)
   \<and> aggregate_measurements ((xs @ ys) @ zs) = aggregate_measurements (xs @ (ys @ zs))
   \<and> aggregate_measurements (results @ results) = aggregate_measurements results"
proof -
  have "aggregate_measurements results = aggregate_measurements results'"
    if "mset results = mset results'"
    using that by (intro aggregate_by_set) (rule mset_eq_setD)
  moreover have "aggregate_measurements (xs @ ys) = aggregate_measurements (ys @ xs)"
    by (intro aggregate_by_set) auto
  moreover have "aggregate_measurements (results @ results) = aggregate_measurements results"
    by (intro aggregate_by_set) auto
  ultimately show ?thesis by (simp add: aggregate_measurements_merged)
qed

lemma lower_examples: "lower ''PM25'' = ''pm25''" "lower ''co'' = ''co''" "lower ''o3'' = ''o3''"
  by code_simp+

lemma aggregate_example:
  "aggregate_measurements [pm25_station 40, pm25_station 85, pm25_station 60]
     = [(''pm25'', Some 85), (''pm10'', None), (''no2'', None),
        (''so2'', None), (''co'', None), (''o3'', None)]"
  by (simp add: aggregate_measurements_def pm25_station_def record_measurement_def
      empty_vector_def param_mapping_def lower_examples)

theorem aggregate_measurements_is_maximum_witness:
  "mset [pm25_station 40, pm25_station 85, pm25_station 60]
     = mset [pm25_station 60, pm25_station 40, pm25_station 85]
   \<and> aggregate_measurements [pm25_station 60, pm25_station 40, pm25_station 85]
       = [(''pm25'', Some 85), (''pm10'', None), (''no2'', None),
          (''so2'', None), (''co'', None), (''o3'', None)]
   \<and> merged ''pm25'' [pm25_station 40, pm25_station 85, pm25_station 60] = Some 85"
proof -
  have p: "mset [pm25_station 40, pm25_station 85, pm25_station 60]
             = mset [pm25_station 60, pm25_station 40, pm25_station 85]" by simp
  from aggregate_measurements_is_maximum
    [of "[pm25_station 40, pm25_station 85, pm25_station 60]"
        "[pm25_station 60, pm25_station 40, pm25_station 85]"]
  have a: "aggregate_measurements [pm25_station 40, pm25_station 85, pm25_station 60]
         = map (\<lambda>key. (key, merged key [pm25_station 40, pm25_station 85, pm25_station 60]))
             pollutant_keys"
    and b: "aggregate_measurements [pm25_station 40, pm25_station 85, pm25_station 60]
         = aggregate_measurements [pm25_station 60, pm25_station 40, pm25_station 85]"
    using p by blast+
  from a have "merged ''pm25'' [pm25_station 40, pm25_station 85, pm25_station 60] = Some 85"
    by (simp add: aggregate_example pollutant_keys_def)
  with p b show ?thesis by (simp add: aggregate_example)
qed

section \<open>Properties of the orchestrator\<close>

lemma calculate_aqi_total: "wf_table B \<Longrightarrow> \<exists>r. calculate_aqi B v = Inr r"
  by (simp add: calculate_aqi_def sub_indices_loop_fold Let_def)

lemma get_city_data_shape:
  assumes "calculate_aqi B used = Inr r"
    and "used = (if live_miss (live_vector e ac0 ci) then demo_vector ci g
                 else (case live_vector e ac0 ci of Some v \<Rightarrow> v | None \<Rightarrow> []))"
  shows "\<exists>rep ac wc. get_city_data B e ac0 wc0 g ci = Inr (rep, ac, wc)
     \<and> built_from B rep used
     \<and> report_data_source rep = (if live_miss (live_vector e ac0 ci) then ''demo'' else ''openaq'')"
proof (cases "live_vector e ac0 ci")
  case None
  then show ?thesis using assms
    by (auto simp: get_city_data_def live_vector_def demo_vector_def built_from_def Let_def
        split: prod.splits option.splits)
next
  case (Some v)
  then show ?thesis using assms
    by (auto simp: get_city_data_def live_vector_def demo_vector_def built_from_def Let_def
        split: prod.splits option.splits)
qed

text \<open>
  C9. On a well-formed table \<open>get_city_data\<close> returns a report. When the live fetch gave
  no vector, or a vector whose fields are all \<open>None\<close>, the report is marked "demo" and is
  built from the vector of \<open>get_demo_aqi_data\<close>; when the live vector has a field that
  is not \<open>None\<close>, the report is marked "openaq" and is built from the live vector.
\<close>

theorem get_city_data_provenance:
  assumes "wf_table B"
  shows "\<exists>rep ac wc. get_city_data B e ac0 wc0 g ci = Inr (rep, ac, wc)
     \<and> (live_miss (live_vector e ac0 ci) \<longrightarrow>
           report_data_source rep = ''demo'' \<and> built_from B rep (demo_vector ci g))
     \<and> (\<forall>live. live_vector e ac0 ci = Some live \<and> \<not> all_none live \<longrightarrow>
           report_data_source rep = ''openaq'' \<and> built_from B rep live)"
proof -
  define used where
    "used = (if live_miss (live_vector e ac0 ci) then demo_vector ci g
             else (case live_vector e ac0 ci of Some v \<Rightarrow> v | None \<Rightarrow> []))"
  from calculate_aqi_total [OF assms] obtain r where "calculate_aqi B used = Inr r" by blast
  from get_city_data_shape [OF this used_def, of wc0]
  obtain rep ac wc where ret: "get_city_data B e ac0 wc0 g ci = Inr (rep, ac, wc)"
    and b: "built_from B rep used"
    and s: "report_data_source rep
              = (if live_miss (live_vector e ac0 ci) then ''demo'' else ''openaq'')"
    by blast
  have "report_data_source rep = ''demo'' \<and> built_from B rep (demo_vector ci g)"
    if "live_miss (live_vector e ac0 ci)"
    using that b s by (simp add: used_def)
  moreover have "report_data_source rep = ''openaq'' \<and> built_from B rep live"
    if "live_vector e ac0 ci = Some live \<and> \<not> all_none live" for live
    using that b s by (simp add: used_def)
  ultimately show ?thesis using ret by blast
qed


lemma live_vector_offline: "live_vector offline_env stale_cache delhi = None"
  by (simp add: live_vector_def offline_env_def delhi_def city_name_of_def
      fetch_aqi_from_openaq_def stale_cache_def get_cached_data_def set_cache_def CACHE_DURATION_def)

lemma live_vector_online:
  "live_vector online_env stale_cache delhi
     = Some [(''pm25'', Some 85), (''pm10'', None), (''no2'', None),
             (''so2'', None), (''co'', None), (''o3'', None)]"
  by (simp add: live_vector_def online_env_def offline_env_def delhi_def city_name_of_def
      fetch_aqi_from_openaq_def stale_cache_def get_cached_data_def set_cache_def
      CACHE_DURATION_def three_stations_def aggregate_example Let_def)

theorem get_city_data_provenance_witness:
  "wf_table example_table
   \<and> live_miss (live_vector offline_env stale_cache delhi)
   \<and> (\<exists>rep ac wc.
         get_city_data example_table offline_env stale_cache Map.empty example_rng delhi
           = Inr (rep, ac, wc)
         \<and> report_data_source rep = ''demo''
         \<and> built_from example_table rep (demo_vector delhi example_rng))
   \<and> (\<exists>rep ac wc.
         get_city_data example_table online_env stale_cache Map.empty example_rng delhi
           = Inr (rep, ac, wc)
         \<and> report_data_source rep = ''openaq''
         \<and> built_from example_table rep
             [(''pm25'', Some 85), (''pm10'', None), (''no2'', None),
              (''so2'', None), (''co'', None), (''o3'', None)])"
proof -
  have miss: "live_miss (live_vector offline_env stale_cache delhi)"
    by (simp add: live_vector_offline)
  have hit: "live_vector online_env stale_cache delhi
       = Some [(''pm25'', Some 85), (''pm10'', None), (''no2'', None),
               (''so2'', None), (''co'', None), (''o3'', None)]
     \<and> \<not> all_none [(''pm25'', Some 85), (''pm10'', None), (''no2'', None),
                     (''so2'', None), (''co'', None), (''o3'', None)]"
    by (simp add: live_vector_online all_none_def)
  from get_city_data_provenance [OF wf_example_table, of offline_env stale_cache Map.empty example_rng delhi] miss
  have a: "\<exists>rep ac wc.
         get_city_data example_table offline_env stale_cache Map.empty example_rng delhi
           = Inr (rep, ac, wc)
         \<and> report_data_source rep = ''demo''
         \<and> built_from example_table rep (demo_vector delhi example_rng)"
    by blast
  from get_city_data_provenance [OF wf_example_table, of online_env stale_cache Map.empty example_rng delhi] hit
  have b: "\<exists>rep ac wc.
         get_city_data example_table online_env stale_cache Map.empty example_rng delhi
           = Inr (rep, ac, wc)
         \<and> report_data_source rep = ''openaq''
         \<and> built_from example_table rep
             [(''pm25'', Some 85), (''pm10'', None), (''no2'', None),
              (''so2'', None), (''co'', None), (''o3'', None)]"
    by blast
  from wf_example_table miss a b show ?thesis by blast
qed

section \<open>Properties of the fetchers\<close>

lemma fetch_aqi_failure:
  assumes "\<not> truthy_vector (get_cached_data cache now (''openaq_'' @ city))"
    and "openaq_failure (http (openaq_params city lat lng))"
  shows "fetch_aqi_from_openaq http cache now later city lat lng = (None, cache)"
  using assms
  by (cases "http (openaq_params city lat lng)") (auto simp: fetch_aqi_from_openaq_def Let_def)

lemma fetch_aqi_success:
  assumes "\<not> truthy_vector (get_cached_data cache now (''openaq_'' @ city))"
    and "http (openaq_params city lat lng) = Response 200 results" and "results \<noteq> []"
  shows "fetch_aqi_from_openaq http cache now later city lat lng
           = (Some (aggregate_measurements results),
              set_cache cache later (''openaq_'' @ city) (aggregate_measurements results))"
  using assms by (simp add: fetch_aqi_from_openaq_def Let_def)

lemma stale_stays_stale:
  assumes "\<not> truthy_vector (get_cached_data cache now k)" and "now \<le> now'"
  shows "\<not> truthy_vector (get_cached_data cache now' k)"
  using assms by (auto simp: get_cached_data_def split: option.splits if_splits)

lemma fetch_weather_failure:
  assumes "get_cached_data cache now (''weather_'' @ fmt lat @ ''_'' @ fmt lng) = None"
    and "api_key = [] \<or> weather_failure (http lat lng)"
  shows "fetch_weather api_key demo fmt http cache now later lat lng = (demo, cache)"
  using assms
  by (cases "http lat lng") (auto simp: fetch_weather_def Let_def)

lemma get_city_data_after_failed_fetch:
  assumes "wf_table B"
    and "fetch_aqi_from_openaq (openaq_http e) ac0 (aqi_lookup_time e) (aqi_store_time e)
           (city_name_of ci) (ci_lat ci) (ci_lng ci) = (None, ac0)"
  shows "\<exists>rep wc. get_city_data B e ac0 wc0 g ci = Inr (rep, ac0, wc)
           \<and> report_data_source rep = ''demo''"
proof -
  from calculate_aqi_total [OF assms(1)]
  obtain r where "calculate_aqi B (fst (get_demo_aqi_data (city_name_of ci) g)) = Inr r"
    by blast
  with assms(2) show ?thesis
    by (auto simp: get_city_data_def Let_def split: prod.splits option.splits)
qed

text \<open>
  C8. When the lookup gives nothing usable and the live fetch fails (a timeout, another
  request error, a status other than 200, or an empty result list), the fetcher returns
  \<open>None\<close> and the cache it leaves is the cache it found: nothing is stored. So a later
  call (the clock not running backwards) finds no usable entry either, asks the service
  again, and returns the live vector once the service answers. \<open>fetch_weather\<close>
  likewise returns the demo weather on a missing key, a timeout, a request error or a
  status other than 200, and leaves its cache as it found it. The caller
  \<open>get_city_data\<close> then builds its report from demo data and hands the cache on
  unchanged.
\<close>

theorem failed_fetch_never_cached:
  "(\<not> truthy_vector (get_cached_data cache now (''openaq_'' @ city))
      \<and> openaq_failure (http (openaq_params city lat lng))
    \<longrightarrow> fetch_aqi_from_openaq http cache now later city lat lng = (None, cache))
   \<and> (\<not> truthy_vector (get_cached_data cache now (''openaq_'' @ city))
      \<and> openaq_failure (http (openaq_params city lat lng))
      \<and> now \<le> now' \<and> http' (openaq_params city lat lng) = Response 200 results
      \<and> results \<noteq> []
    \<longrightarrow> fst (fetch_aqi_from_openaq http'
               (snd (fetch_aqi_from_openaq http cache now later city lat lng))
               now' later' city lat lng)
          = Some (aggregate_measurements results))
   \<and> (get_cached_data wcache now (''weather_'' @ fmt la @ ''_'' @ fmt lo) = None
      \<and> (api_key = [] \<or> weather_failure (whttp la lo))
    \<longrightarrow> fetch_weather api_key demo fmt whttp wcache now later la lo = (demo, wcache))
   \<and> (wf_table B
      \<and> \<not> truthy_vector
            (get_cached_data acache (aqi_lookup_time e) (''openaq_'' @ city_name_of ci))
      \<and> openaq_failure
            (openaq_http e (openaq_params (city_name_of ci) (ci_lat ci) (ci_lng ci)))
    \<longrightarrow> (\<exists>rep wc. get_city_data B e acache wstore g ci = Inr (rep, acache, wc)
               \<and> report_data_source rep = ''demo''))"
proof (intro conjI impI)
  assume "\<not> truthy_vector (get_cached_data cache now (''openaq_'' @ city))
      \<and> openaq_failure (http (openaq_params city lat lng))"
  then show "fetch_aqi_from_openaq http cache now later city lat lng = (None, cache)"
    by (simp add: fetch_aqi_failure)
next
  assume a: "\<not> truthy_vector (get_cached_data cache now (''openaq_'' @ city))
      \<and> openaq_failure (http (openaq_params city lat lng))
      \<and> now \<le> now' \<and> http' (openaq_params city lat lng) = Response 200 results
      \<and> results \<noteq> []"
  then have "fetch_aqi_from_openaq http cache now later city lat lng = (None, cache)"
    by (simp add: fetch_aqi_failure)
  moreover have "\<not> truthy_vector (get_cached_data cache now' (''openaq_'' @ city))"
    using a stale_stays_stale by blast
  ultimately show "fst (fetch_aqi_from_openaq http'
               (snd (fetch_aqi_from_openaq http cache now later city lat lng))
               now' later' city lat lng)
          = Some (aggregate_measurements results)"
    using a by (simp add: fetch_aqi_success)
next
  assume "get_cached_data wcache now (''weather_'' @ fmt la @ ''_'' @ fmt lo) = None
      \<and> (api_key = [] \<or> weather_failure (whttp la lo))"
  then show "fetch_weather api_key demo fmt whttp wcache now later la lo = (demo, wcache)"
    by (simp add: fetch_weather_failure)
next
  assume a: "wf_table B
      \<and> \<not> truthy_vector
            (get_cached_data acache (aqi_lookup_time e) (''openaq_'' @ city_name_of ci))
      \<and> openaq_failure
            (openaq_http e (openaq_params (city_name_of ci) (ci_lat ci) (ci_lng ci)))"
  then have "fetch_aqi_from_openaq (openaq_http e) acache (aqi_lookup_time e) (aqi_store_time e)
           (city_name_of ci) (ci_lat ci) (ci_lng ci) = (None, acache)"
    by (simp add: fetch_aqi_failure)
  with a show "\<exists>rep wc. get_city_data B e acache wstore g ci = Inr (rep, acache, wc)
               \<and> report_data_source rep = ''demo''"
    using get_city_data_after_failed_fetch [of B e acache ci wstore g] by blast
qed


theorem failed_fetch_never_cached_witness:
  "fetch_aqi_from_openaq (\<lambda>q. Timeout) stale_cache 2000 2001 ''Delhi'' None None
     = (None, stale_cache)
   \<and> fst (fetch_aqi_from_openaq (\<lambda>q. Response 200 three_stations)
           (snd (fetch_aqi_from_openaq (\<lambda>q. Timeout) stale_cache 2000 2001 ''Delhi'' None None))
           2100 2101 ''Delhi'' None None)
       = Some (aggregate_measurements three_stations)
   \<and> fetch_weather ''key'' (0::nat) (\<lambda>x. ''x'') (\<lambda>la lo. Response 503 7) Map.empty 2000 2001 28 77
       = (0, Map.empty)
   \<and> (\<exists>rep wc.
         get_city_data example_table offline_env stale_cache Map.empty example_rng delhi
           = Inr (rep, stale_cache, wc)
         \<and> report_data_source rep = ''demo'')"
proof -
  have stale': "\<not> truthy_vector
      (get_cached_data stale_cache (aqi_lookup_time offline_env) (''openaq_'' @ city_name_of delhi))"
    by (simp add: stale_cache_def get_cached_data_def set_cache_def CACHE_DURATION_def
        offline_env_def delhi_def city_name_of_def)
  have fail': "openaq_failure
      (openaq_http offline_env (openaq_params (city_name_of delhi) (ci_lat delhi) (ci_lng delhi)))"
    by (simp add: offline_env_def)
  have stale: "\<not> truthy_vector (get_cached_data stale_cache 2000 (''openaq_'' @ ''Delhi''))"
    by (simp add: stale_cache_def get_cached_data_def set_cache_def CACHE_DURATION_def)
  have fail: "openaq_failure ((\<lambda>q. Timeout) (openaq_params ''Delhi'' None None))" by simp
  have ok: "(\<lambda>q. Response 200 three_stations) (openaq_params ''Delhi'' None None)
              = Response 200 three_stations" by simp
  have ne: "three_stations \<noteq> []" by (simp add: three_stations_def)
  have le: "(2000::rat) \<le> 2100" by simp
  have w: "get_cached_data (Map.empty :: nat cache) 2000 (''weather_'' @ (\<lambda>x. ''x'') 28 @ ''_'' @ (\<lambda>x. ''x'') 77)
             = None" by (simp add: get_cached_data_def)
  have wf: "''key'' = [] \<or> weather_failure ((\<lambda>la lo. Response 503 (7::nat)) (28::rat) (77::rat))"
    by simp
  from failed_fetch_never_cached
    [where cache = stale_cache and now = 2000 and later = 2001 and city = "''Delhi''"
       and http = "\<lambda>q. Timeout" and lat = None and lng = None and now' = 2100
       and later' = 2101 and http' = "\<lambda>q. Response 200 three_stations"
       and results = three_stations and wcache = "Map.empty :: nat cache"
       and fmt = "\<lambda>x. ''x''" and la = 28 and lo = 77 and api_key = "''key''"
       and whttp = "\<lambda>la lo. Response 503 7" and demo = 0
       and B = example_table and e = offline_env and acache = stale_cache
       and wstore = Map.empty and g = example_rng and ci = delhi]
    stale fail ok ne w wf le stale' fail' wf_example_table
  show ?thesis by blast
qed

section \<open>Properties of the demo data\<close>

lemma map_of_city_profiles_Delhi: "map_of city_profiles ''Delhi'' = Some (100, 220, 250, 450)"
  by (simp add: city_profiles_def)

text \<open>
  C2. \<open>get_demo_aqi_data\<close> never reads the clock and seeds nothing: its vector is
  determined by the city and by the state of the module-level generator, which every
  call advances by six draws. Two calls for Delhi, one right after the other and so
  within the same hour, return different vectors when the generator's next draws differ:
  here the first call draws six times 0 and the second six times 1/2.
\<close>

theorem get_demo_aqi_data_follows_generator:
  "fst (get_demo_aqi_data ''Delhi'' example_rng)
     = [(''pm25'', Some 100), (''pm10'', Some 150), (''no2'', Some (168 / 10)),
        (''so2'', Some (84 / 10)), (''co'', Some (28 / 100)), (''o3'', Some 28)]
   \<and> fst (get_demo_aqi_data ''Delhi'' (snd (get_demo_aqi_data ''Delhi'' example_rng)))
     = [(''pm25'', Some 160), (''pm10'', Some 296), (''no2'', Some (648 / 10)),
        (''so2'', Some (369 / 10)), (''co'', Some (198 / 100)), (''o3'', Some 90)]"
  by (simp add: get_demo_aqi_data_def map_of_city_profiles_Delhi uniform_def example_rng_def
      py_round_to_def py_round_def Let_def)

end
